theory Spec2Isabelle
  imports Main "HOL-Library.Word" "HOL-Library.Sublist"
begin

unbundle bit_operations_syntax

section \<open>Python values, exceptions and protocol messages\<close>

text \<open>
  Byte strings are lists of 8-bit words; Python integers are unbounded and modelled
  by \<open>int\<close>; BIP-32 path elements and indices, which the wire format carries as
  unsigned values, are natural numbers.
\<close>

type_synonym bytes = "8 word list"

datatype FailureType = DataError | ProcessError | ActionCancelled | NotEnoughFunds

text \<open>
  An exception object is built from its positional arguments. \<open>SigningError\<close> is
  a plain subclass of \<open>ValueError\<close> with no constructor of its own, so it keeps whatever
  arguments the raise site passes.
\<close>

datatype arg = Failure FailureType | Message string

datatype exn =
    SigningError "arg list"
  | AssertionError
  | AttributeError
  | IndexError
  | NameError
  | TypeError
  | UnboundLocalError
  | ValueError

text \<open>
  \<open>except ValueError\<close> catches the class and its subclasses, \<open>SigningError\<close> among them.
\<close>

fun is_ValueError :: "exn \<Rightarrow> bool" where
  "is_ValueError ValueError = True"
| "is_ValueError (SigningError a) = True"
| "is_ValueError _ = False"

text \<open>
  An exception of the shape \<open>SigningError(FailureType, message)\<close>: the failure type
  first, then the message.
\<close>

fun has_failure_type :: "exn \<Rightarrow> bool" where
  "has_failure_type (SigningError [Failure f, Message m]) = True"
| "has_failure_type _ = False"

datatype InputScriptType =
  SPENDADDRESS | SPENDMULTISIG | EXTERNAL | SPENDWITNESS | SPENDP2SHWITNESS

datatype OutputScriptType =
  PAYTOADDRESS | PAYTOSCRIPTHASH | PAYTOMULTISIG | PAYTOOPRETURN | PAYTOWITNESS | PAYTOP2SHWITNESS

record MultisigRedeemScriptType =
  pubkeys :: "bytes list"
  signatures :: "bytes list"
  ms_m :: nat

text \<open>
  \<open>attribute_from_tx\<close> takes either an input or an output and reads only the path and
  the multisig descriptor; the two message types extend a common record of those fields.
\<close>

record txio =
  address_n :: "nat list"
  multisig :: "MultisigRedeemScriptType option"

record TxInputType = txio +
  prev_hash :: bytes
  prev_index :: nat
  script_sig :: bytes
  sequence :: nat
  script_type :: InputScriptType
  amount :: "int option"

record TxOutputType = txio +
  address :: "string option"
  amount :: int
  script_type :: OutputScriptType
  op_return_data :: bytes

record TxOutputBinType =
  amount :: int
  script_pubkey :: bytes

text \<open>
  \<open>write_tx_header\<close> takes the request being signed or the meta data of a previous
  transaction and reads the fields the two share.
\<close>

record tx_common =
  version :: int
  lock_time :: int
  timestamp :: int

record SignTx = tx_common +
  inputs_count :: nat
  outputs_count :: nat

record TransactionType = tx_common +
  inputs_cnt :: nat
  outputs_cnt :: nat
  extra_data_len :: nat

record CoinInfo =
  address_type :: int
  address_type_p2sh :: int
  bech32_prefix :: "string option"
  cashaddr_prefix :: "string option"
  curve_name :: string
  maxfee_kb :: int
  sign_hash_double :: bool
  segwit :: bool
  force_bip143 :: bool
  negative_fee :: bool
  fork_id :: "int option"
  extra_data :: bool
  timestamp :: bool
  b58_hash :: nat

record HDNode =
  private_key :: bytes
  public_key :: bytes

record Bip143 =
  h_prevouts :: bytes
  h_sequence :: bytes
  h_outputs :: bytes

section \<open>Match checkers\<close>

definition BIP32_WALLET_DEPTH :: nat where
  "BIP32_WALLET_DEPTH = 2"

definition BIP32_CHANGE_CHAIN :: nat where
  "BIP32_CHANGE_CHAIN = 1"

definition BIP32_MAX_LAST_ELEMENT :: nat where
  "BIP32_MAX_LAST_ELEMENT = 1000000"

text \<open>
  The attribute is one of the two sentinel objects or a value returned by
  \<open>attribute_from_tx\<close>. Both subclasses return \<open>None\<close> or a sequence (a path prefix,
  a fingerprint byte string), so a value is a list, false exactly when empty.
\<close>

datatype 'a attr = UNDEFINED | MISMATCH | Value "'a list"

record 'a MatchChecker =
  attribute :: "'a attr"
  read_only :: bool

definition MatchChecker_init :: "'a MatchChecker" where
  "MatchChecker_init = \<lparr>attribute = UNDEFINED, read_only = False\<rparr>"

text \<open>
  \<open>add_input\<close> opens with \<open>ensure(not self.read_only)\<close>. The file calls \<open>ensure\<close> by its
  bare name and neither imports nor defines it (it imports \<open>utils\<close> and reaches the hash
  writer as \<open>utils.HashWriter\<close>), so the call raises \<open>NameError\<close> when the name is looked
  up, whatever the argument is.
\<close>

definition ensure :: "bool \<Rightarrow> exn + unit" where
  "ensure cond = Inl NameError"

definition add_input ::
  "('t \<Rightarrow> 'a list option) \<Rightarrow> 'a MatchChecker \<Rightarrow> 't \<Rightarrow> exn + 'a MatchChecker" where
  "add_input attribute_from_tx self txi =
     (case ensure (\<not> read_only self) of
        Inl e \<Rightarrow> Inl e
      | Inr _ \<Rightarrow>
          if attribute self = MISMATCH then Inr self
          else (case attribute_from_tx txi of
                  None \<Rightarrow> Inr (self\<lparr>attribute := MISMATCH\<rparr>)
                | Some added_attribute \<Rightarrow>
                    if added_attribute = [] then Inr (self\<lparr>attribute := MISMATCH\<rparr>)
                    else if attribute self = UNDEFINED
                      then Inr (self\<lparr>attribute := Value added_attribute\<rparr>)
                    else if attribute self \<noteq> Value added_attribute
                      then Inr (self\<lparr>attribute := MISMATCH\<rparr>)
                    else Inr self))"

text \<open>
  Python's \<open>!=\<close> and \<open>==\<close> between the stored attribute and a fresh one: \<open>None\<close> and a
  sentinel object are equal to nothing but themselves.
\<close>

definition attribute_eq :: "'a attr \<Rightarrow> 'a list option \<Rightarrow> bool" where
  "attribute_eq a r = (case r of None \<Rightarrow> False | Some v \<Rightarrow> a = Value v)"

definition transaction_has_changed :: exn where
  "transaction_has_changed =
     SigningError [Failure ProcessError, Message ''Transaction has changed during signing'']"

definition check_input ::
  "('t \<Rightarrow> 'a list option) \<Rightarrow> 'a MatchChecker \<Rightarrow> 't \<Rightarrow> exn + unit" where
  "check_input attribute_from_tx self txi =
     (if attribute self = MISMATCH then Inr ()
      else if \<not> attribute_eq (attribute self) (attribute_from_tx txi)
        then Inl transaction_has_changed
      else Inr ())"

definition output_matches ::
  "('t \<Rightarrow> 'a list option) \<Rightarrow> 'a MatchChecker \<Rightarrow> 't \<Rightarrow> bool \<times> 'a MatchChecker" where
  "output_matches attribute_from_tx self txo =
     (let self = self\<lparr>read_only := True\<rparr>
      in if attribute self = MISMATCH then (False, self)
         else (attribute_eq (attribute self) (attribute_from_tx txo), self))"

definition WalletPathChecker_attribute_from_tx :: "'z txio_scheme \<Rightarrow> nat list option" where
  "WalletPathChecker_attribute_from_tx t =
     (if address_n t = [] then None
      else Some (take (length (address_n t) - BIP32_WALLET_DEPTH) (address_n t)))"

text \<open>
  \<open>multisig.multisig_fingerprint\<close> is not among the source files; the checker takes it
  as a parameter.
\<close>

definition MultisigFingerprintChecker_attribute_from_tx ::
  "(MultisigRedeemScriptType \<Rightarrow> bytes) \<Rightarrow> 'z txio_scheme \<Rightarrow> bytes option" where
  "MultisigFingerprintChecker_attribute_from_tx fingerprint t =
     (case multisig t of None \<Rightarrow> None | Some ms \<Rightarrow> Some (fingerprint ms))"

section \<open>External collaborators\<close>

text \<open>
  The modules the signer imports are not among the source files. Their functions and
  tables are parameters of the model, grouped by module; a function that can raise
  returns a sum. Writers take the bytes written so far (to a hash writer or to the
  serialization buffer) and return them extended. The weight calculator is its state, an
  integer. \<open>fee_over_threshold fee maxfee_kb total\<close> stands for the floating-point
  comparison \<open>fee > (maxfee_kb / 1000) * (total / 4)\<close>.
\<close>

record helpers_module =
  CHANGE_OUTPUT_SCRIPT_TYPES :: "OutputScriptType list"
  CHANGE_OUTPUT_TO_INPUT_SCRIPT_TYPES :: "OutputScriptType \<rightharpoonup> InputScriptType"
  SEGWIT_INPUT_SCRIPT_TYPES :: "InputScriptType list"
  NONSEGWIT_INPUT_SCRIPT_TYPES :: "InputScriptType list"

record multisig_module =
  multisig_fingerprint :: "MultisigRedeemScriptType \<Rightarrow> bytes"
  multisig_pubkey_index :: "MultisigRedeemScriptType \<Rightarrow> bytes \<Rightarrow> exn + nat"
  multisig_get_pubkeys :: "MultisigRedeemScriptType option \<Rightarrow> exn + bytes list"

record writers_module =
  write_uint32 :: "bytes \<Rightarrow> int \<Rightarrow> bytes"
  write_varint :: "bytes \<Rightarrow> int \<Rightarrow> bytes"
  write_bytes_unchecked :: "bytes \<Rightarrow> bytes \<Rightarrow> bytes"
  write_tx_input :: "bytes \<Rightarrow> TxInputType \<Rightarrow> bytes"
  write_tx_input_check :: "bytes \<Rightarrow> TxInputType \<Rightarrow> bytes"
  write_tx_output :: "bytes \<Rightarrow> TxOutputBinType \<Rightarrow> bytes"

record scripts_module =
  output_script_paytoopreturn :: "bytes \<Rightarrow> bytes"
  output_script_native_p2wpkh_or_p2wsh :: "bytes \<Rightarrow> bytes"
  output_script_p2pkh :: "bytes \<Rightarrow> bytes"
  output_script_p2sh :: "bytes \<Rightarrow> bytes"
  output_script_multisig :: "bytes list \<Rightarrow> nat \<Rightarrow> bytes"
  write_output_script_multisig :: "bytes \<Rightarrow> bytes list \<Rightarrow> nat \<Rightarrow> bytes"
  input_script_p2pkh_or_p2sh :: "bytes \<Rightarrow> bytes option \<Rightarrow> int \<Rightarrow> bytes"
  input_script_p2wsh_in_p2sh :: "bytes \<Rightarrow> bytes"
  input_script_p2wpkh_in_p2sh :: "bytes \<Rightarrow> bytes"
  input_script_native_p2wpkh_or_p2wsh :: bytes
  input_script_multisig ::
    "MultisigRedeemScriptType \<Rightarrow> bytes option \<Rightarrow> nat \<Rightarrow> int \<Rightarrow> CoinInfo \<Rightarrow> bytes"
  witness_p2wsh :: "MultisigRedeemScriptType \<Rightarrow> bytes \<Rightarrow> nat \<Rightarrow> int \<Rightarrow> bytes"
  witness_p2wpkh :: "bytes \<Rightarrow> bytes \<Rightarrow> int \<Rightarrow> bytes"

record addresses_module =
  decode_bech32_address :: "string \<Rightarrow> string \<Rightarrow> exn + bytes"
  get_address ::
    "InputScriptType \<Rightarrow> CoinInfo \<Rightarrow> HDNode \<Rightarrow> MultisigRedeemScriptType option \<Rightarrow> exn + string"
  ecdsa_hash_pubkey :: "bytes \<Rightarrow> CoinInfo \<Rightarrow> bytes"
  address_type_check :: "int \<Rightarrow> bytes \<Rightarrow> bool"
  address_type_strip :: "int \<Rightarrow> bytes \<Rightarrow> bytes"
  base58_decode_check :: "string option \<Rightarrow> nat \<Rightarrow> exn + bytes"
  cashaddr_decode :: "string \<Rightarrow> string \<Rightarrow> exn + int \<times> bytes"
  ADDRESS_TYPE_P2KH :: int
  ADDRESS_TYPE_P2SH :: int

record primitives_module =
  sha256 :: "bytes \<Rightarrow> bytes"
  keychain_derive :: "nat list \<Rightarrow> string \<Rightarrow> exn + HDNode"
  secp256k1_sign :: "bytes \<Rightarrow> bytes \<Rightarrow> bytes"
  der_encode_seq :: "bytes list \<Rightarrow> bytes"
  bip143_init :: Bip143
  bip143_add_prevouts :: "Bip143 \<Rightarrow> TxInputType \<Rightarrow> Bip143"
  bip143_add_sequence :: "Bip143 \<Rightarrow> TxInputType \<Rightarrow> Bip143"
  bip143_add_output :: "Bip143 \<Rightarrow> TxOutputBinType \<Rightarrow> Bip143"
  bip143_preimage_hash ::
    "Bip143 \<Rightarrow> CoinInfo \<Rightarrow> SignTx \<Rightarrow> TxInputType \<Rightarrow> bytes \<Rightarrow> int \<Rightarrow> exn + bytes"
  weight_init :: "nat \<Rightarrow> nat \<Rightarrow> int"
  weight_add_output :: "int \<Rightarrow> bytes \<Rightarrow> int"
  weight_get_total :: "int \<Rightarrow> int"
  fee_over_threshold :: "int \<Rightarrow> int \<Rightarrow> int \<Rightarrow> bool"

record env =
  helpers :: helpers_module
  multisig_m :: multisig_module
  writers :: writers_module
  scripts :: scripts_module
  addresses :: addresses_module
  primitives :: primitives_module

section \<open>The signer\<close>

text \<open>
  \<open>Bitcoinlike\<close> inherits from \<open>Bitcoin\<close> and overrides some of its methods; a call
  through \<open>self\<close> dispatches on the class of the object.
\<close>

datatype signer_class = Bitcoin | Bitcoinlike

record Signer =
  cls :: signer_class
  coin :: CoinInfo
  tx :: SignTx
  multisig_fingerprint :: "8 word MatchChecker"
  wallet_path :: "nat MatchChecker"
  segwit :: "nat \<rightharpoonup> bool"
  total_in :: int
  bip143_in :: int
  total_out :: int
  change_out :: int
  weight :: int
  serialized_tx :: bytes
  tx_req_signature_index :: "nat option"
  tx_req_signature :: "bytes option"
  h_confirmed :: bytes
  hash143 :: Bip143

text \<open>\<open>for i in range(n)\<close> with a body that can raise: the first exception ends the loop.\<close>

fun for_loop :: "nat list \<Rightarrow> (nat \<Rightarrow> 's \<Rightarrow> exn + 's) \<Rightarrow> 's \<Rightarrow> exn + 's" where
  "for_loop [] body s = Inr s"
| "for_loop (i # is) body s =
     (case body i s of Inl e \<Rightarrow> Inl e | Inr s' \<Rightarrow> for_loop is body s')"

text \<open>A hash writer is the bytes fed to it; its digest is the hash of those bytes.\<close>

definition create_hash_writer :: bytes where
  "create_hash_writer = []"

definition get_digest :: "env \<Rightarrow> bytes \<Rightarrow> bytes" where
  "get_digest E w = sha256 (primitives E) w"

text \<open>
  Modelled from the spec: \<open>writers.get_tx_hash\<close> is not among the source files. The
  signer calls it with the keywords \<open>double\<close> and \<open>reverse\<close>; the spec speaks of a digest
  that is ``optionally double-hashed per coin'' and of ``the final reversed digest''. So
  it is the digest of the hash writer, hashed once more when \<open>double\<close> is set, with its
  bytes in reverse order when \<open>reverse\<close> is set.
\<close>

definition get_tx_hash :: "env \<Rightarrow> bytes \<Rightarrow> bool \<Rightarrow> bool \<Rightarrow> bytes" where
  "get_tx_hash E w double reverse =
     (let d = get_digest E w;
          d = (if double then sha256 (primitives E) d else d)
      in if reverse then rev d else d)"

text \<open>
  \<open>initialize\<close>, for a request that \<open>sanitize_sign_tx\<close> has already gone through; \<open>c\<close> is
  the class of the signer that is created.
\<close>

definition initialize :: "env \<Rightarrow> signer_class \<Rightarrow> SignTx \<Rightarrow> CoinInfo \<Rightarrow> Signer" where
  "initialize E c t cn =
     \<lparr>cls = c, coin = cn, tx = t,
      multisig_fingerprint = MatchChecker_init,
      wallet_path = MatchChecker_init,
      segwit = Map.empty,
      total_in = 0, bip143_in = 0, total_out = 0, change_out = 0,
      weight = weight_init (primitives E) (inputs_count t) (outputs_count t),
      serialized_tx = [],
      tx_req_signature_index = None, tx_req_signature = None,
      h_confirmed = create_hash_writer,
      hash143 = bip143_init (primitives E)\<rparr>"

subsection \<open>Transaction helpers\<close>

definition Bitcoin_get_hash_type :: "Signer \<Rightarrow> int" where
  "Bitcoin_get_hash_type self = (let SIGHASH_ALL = 0x01 in SIGHASH_ALL)"

definition Bitcoinlike_get_hash_type :: "Signer \<Rightarrow> int" where
  "Bitcoinlike_get_hash_type self =
     (let SIGHASH_FORKID = 0x40;
          hashtype = Bitcoin_get_hash_type self
      in case fork_id (coin self) of
           None \<Rightarrow> hashtype
         | Some f \<Rightarrow> hashtype OR (push_bit 8 f OR SIGHASH_FORKID))"

definition get_hash_type :: "Signer \<Rightarrow> int" where
  "get_hash_type self =
     (case cls self of
        Bitcoin \<Rightarrow> Bitcoin_get_hash_type self
      | Bitcoinlike \<Rightarrow> Bitcoinlike_get_hash_type self)"

definition Bitcoin_on_negative_fee :: "Signer \<Rightarrow> exn + unit" where
  "Bitcoin_on_negative_fee self =
     Inl (SigningError [Failure NotEnoughFunds, Message ''Not enough funds''])"

definition Bitcoinlike_on_negative_fee :: "Signer \<Rightarrow> exn + unit" where
  "Bitcoinlike_on_negative_fee self =
     (if \<not> negative_fee (coin self) then Bitcoin_on_negative_fee self else Inr ())"

definition on_negative_fee :: "Signer \<Rightarrow> exn + unit" where
  "on_negative_fee self =
     (case cls self of
        Bitcoin \<Rightarrow> Bitcoin_on_negative_fee self
      | Bitcoinlike \<Rightarrow> Bitcoinlike_on_negative_fee self)"

definition Bitcoin_write_tx_header ::
  "env \<Rightarrow> Signer \<Rightarrow> bytes \<Rightarrow> 'z tx_common_scheme \<Rightarrow> bool \<Rightarrow> bytes" where
  "Bitcoin_write_tx_header E self w t has_segwit =
     (let w = write_uint32 (writers E) w (version t)
      in if has_segwit
         then write_varint (writers E) (write_varint (writers E) w 0x00) 0x01
         else w)"

definition Bitcoinlike_write_tx_header ::
  "env \<Rightarrow> Signer \<Rightarrow> bytes \<Rightarrow> 'z tx_common_scheme \<Rightarrow> bool \<Rightarrow> bytes" where
  "Bitcoinlike_write_tx_header E self w t has_segwit =
     (let w = write_uint32 (writers E) w (version t);
          w = (if CoinInfo.timestamp (coin self)
               then write_uint32 (writers E) w (tx_common.timestamp t) else w)
      in if has_segwit
         then write_varint (writers E) (write_varint (writers E) w 0x00) 0x01
         else w)"

definition write_tx_header ::
  "env \<Rightarrow> Signer \<Rightarrow> bytes \<Rightarrow> 'z tx_common_scheme \<Rightarrow> bool \<Rightarrow> bytes" where
  "write_tx_header E self w t has_segwit =
     (case cls self of
        Bitcoin \<Rightarrow> Bitcoin_write_tx_header E self w t has_segwit
      | Bitcoinlike \<Rightarrow> Bitcoinlike_write_tx_header E self w t has_segwit)"

definition write_sign_tx_header :: "env \<Rightarrow> Signer \<Rightarrow> bytes \<Rightarrow> bool \<Rightarrow> bytes" where
  "write_sign_tx_header E self w has_segwit =
     write_varint (writers E) (write_tx_header E self w (tx self) has_segwit)
       (int (inputs_count (tx self)))"

definition ecdsa_sign :: "env \<Rightarrow> HDNode \<Rightarrow> bytes \<Rightarrow> bytes" where
  "ecdsa_sign E node digest =
     (let sig = secp256k1_sign (primitives E) (private_key node) digest;
          sigder = der_encode_seq (primitives E) [take 32 (drop 1 sig), take 32 (drop 33 sig)]
      in sigder)"

definition input_is_segwit :: "env \<Rightarrow> TxInputType \<Rightarrow> bool" where
  "input_is_segwit E txi =
     (TxInputType.script_type txi \<in> set (SEGWIT_INPUT_SCRIPT_TYPES (helpers E)))"

definition input_is_nonsegwit :: "env \<Rightarrow> TxInputType \<Rightarrow> bool" where
  "input_is_nonsegwit E txi =
     (TxInputType.script_type txi \<in> set (NONSEGWIT_INPUT_SCRIPT_TYPES (helpers E)))"

subsection \<open>Outputs\<close>

definition get_address_for_change :: "env \<Rightarrow> Signer \<Rightarrow> TxOutputType \<Rightarrow> exn + string" where
  "get_address_for_change E self txo =
     (case CHANGE_OUTPUT_TO_INPUT_SCRIPT_TYPES (helpers E) (TxOutputType.script_type txo) of
        None \<Rightarrow> Inl (SigningError [Failure DataError, Message ''Invalid script type''])
      | Some input_script_type \<Rightarrow>
          (case keychain_derive (primitives E) (address_n txo) (curve_name (coin self)) of
             Inl e \<Rightarrow> Inl e
           | Inr node \<Rightarrow>
               get_address (addresses E) input_script_type (coin self) node (multisig txo)))"

definition Bitcoin_get_raw_address :: "env \<Rightarrow> Signer \<Rightarrow> TxOutputType \<Rightarrow> exn + bytes" where
  "Bitcoin_get_raw_address E self txo =
     (case base58_decode_check (addresses E) (address txo) (b58_hash (coin self)) of
        Inl e \<Rightarrow>
          if is_ValueError e
          then Inl (SigningError [Failure DataError, Message ''Invalid address''])
          else Inl e
      | Inr raw \<Rightarrow> Inr raw)"

text \<open>\<open>s.split(sep)\<close> for a separator of one character.\<close>

fun split_str :: "char \<Rightarrow> string \<Rightarrow> string list" where
  "split_str sep [] = [[]]"
| "split_str sep (c # cs) =
     (if c = sep then [] # split_str sep cs
      else (case split_str sep cs of [] \<Rightarrow> [[c]] | p # ps \<Rightarrow> (c # p) # ps))"

text \<open>\<open>bytes([version]) + data\<close>: a value outside \<open>range(256)\<close> is a \<open>ValueError\<close>.\<close>

definition version_bytes :: "int \<Rightarrow> bytes \<Rightarrow> exn + bytes" where
  "version_bytes v data =
     (if 0 \<le> v \<and> v < 256 then Inr (word_of_int v # data) else Inl ValueError)"

text \<open>\<open>address.startswith(p)\<close>, where the address of an output may be \<open>None\<close>.\<close>

definition startswith :: "string option \<Rightarrow> string \<Rightarrow> exn + bool" where
  "startswith a p = (case a of None \<Rightarrow> Inl AttributeError | Some s \<Rightarrow> Inr (prefix p s))"

definition Bitcoinlike_get_raw_address :: "env \<Rightarrow> Signer \<Rightarrow> TxOutputType \<Rightarrow> exn + bytes" where
  "Bitcoinlike_get_raw_address E self txo =
     (case cashaddr_prefix (coin self) of
        None \<Rightarrow> Bitcoin_get_raw_address E self txo
      | Some cp \<Rightarrow>
          (case startswith (address txo) (cp @ '':'') of
             Inl e \<Rightarrow> Inl e
           | Inr False \<Rightarrow> Bitcoin_get_raw_address E self txo
           | Inr True \<Rightarrow>
               (case split_str CHR '':'' (the (address txo)) of
                  [pfx, addr] \<Rightarrow>
                    (case cashaddr_decode (addresses E) pfx addr of
                       Inl e \<Rightarrow> Inl e
                     | Inr (ver, data) \<Rightarrow>
                         if ver = ADDRESS_TYPE_P2KH (addresses E)
                           then version_bytes (address_type (coin self)) data
                         else if ver = ADDRESS_TYPE_P2SH (addresses E)
                           then version_bytes (address_type_p2sh (coin self)) data
                         else Inl (SigningError [Message ''Unknown cashaddr address type'']))
                | _ \<Rightarrow> Inl ValueError)))"

definition get_raw_address :: "env \<Rightarrow> Signer \<Rightarrow> TxOutputType \<Rightarrow> exn + bytes" where
  "get_raw_address E self txo =
     (case cls self of
        Bitcoin \<Rightarrow> Bitcoin_get_raw_address E self txo
      | Bitcoinlike \<Rightarrow> Bitcoinlike_get_raw_address E self txo)"

text \<open>
  The tail of \<open>output_derive_script\<close>, from \<open>get_raw_address\<close> on: pay to public key hash,
  pay to script hash, or an invalid address type.
\<close>

definition output_script_from_raw_address :: "env \<Rightarrow> Signer \<Rightarrow> TxOutputType \<Rightarrow> exn + bytes" where
  "output_script_from_raw_address E self txo =
     (case get_raw_address E self txo of
        Inl e \<Rightarrow> Inl e
      | Inr raw_address \<Rightarrow>
          if address_type_check (addresses E) (address_type (coin self)) raw_address
            then Inr (output_script_p2pkh (scripts E)
                       (address_type_strip (addresses E) (address_type (coin self)) raw_address))
          else if address_type_check (addresses E) (address_type_p2sh (coin self)) raw_address
            then Inr (output_script_p2sh (scripts E)
                       (address_type_strip (addresses E) (address_type_p2sh (coin self)) raw_address))
          else Inl (SigningError [Failure DataError, Message ''Invalid address type'']))"

text \<open>
  For a change output the derived address is stored in the output before it is decoded;
  the object is the host's reply, which nothing but the confirmation prompt reads later.
\<close>

definition output_derive_script :: "env \<Rightarrow> Signer \<Rightarrow> TxOutputType \<Rightarrow> exn + bytes" where
  "output_derive_script E self txo =
     (if TxOutputType.script_type txo = PAYTOOPRETURN
      then Inr (output_script_paytoopreturn (scripts E) (op_return_data txo))
      else
        case (if address_n txo \<noteq> []
              then (case get_address_for_change E self txo of
                      Inl e \<Rightarrow> Inl e
                    | Inr a \<Rightarrow> Inr (txo\<lparr>address := Some a\<rparr>))
              else Inr txo) of
          Inl e \<Rightarrow> Inl e
        | Inr txo \<Rightarrow>
            (case (case bech32_prefix (coin self) of
                     None \<Rightarrow> Inr False
                   | Some bp \<Rightarrow> if bp = [] then Inr False else startswith (address txo) bp) of
               Inl e \<Rightarrow> Inl e
             | Inr True \<Rightarrow>
                 (case decode_bech32_address (addresses E)
                         (the (bech32_prefix (coin self))) (the (address txo)) of
                    Inl e \<Rightarrow> Inl e
                  | Inr witprog \<Rightarrow>
                      Inr (output_script_native_p2wpkh_or_p2wsh (scripts E) witprog))
             | Inr False \<Rightarrow> output_script_from_raw_address E self txo))"

definition output_is_change :: "env \<Rightarrow> Signer \<Rightarrow> TxOutputType \<Rightarrow> exn + bool \<times> Signer" where
  "output_is_change E self txo =
     (if TxOutputType.script_type txo \<notin> set (CHANGE_OUTPUT_SCRIPT_TYPES (helpers E))
      then Inr (False, self)
      else
        case (case multisig txo of
                None \<Rightarrow> (False, self)
              | Some ms \<Rightarrow>
                  (let (matches, c) =
                         output_matches
                           (MultisigFingerprintChecker_attribute_from_tx
                              (multisig_module.multisig_fingerprint (multisig_m E)))
                           (Signer.multisig_fingerprint self) txo
                   in (\<not> matches, self\<lparr>Signer.multisig_fingerprint := c\<rparr>))) of
          (True, self) \<Rightarrow> Inr (False, self)
        | (False, self) \<Rightarrow>
            (let (matches, c) =
                   output_matches WalletPathChecker_attribute_from_tx (wallet_path self) txo;
                 self = self\<lparr>wallet_path := c\<rparr>
             in if \<not> matches then Inr (False, self)
                else if length (address_n txo) < 2 then Inl IndexError
                else if \<not> address_n txo ! (length (address_n txo) - 2) \<le> BIP32_CHANGE_CHAIN
                  then Inr (False, self)
                else Inr (address_n txo ! (length (address_n txo) - 1)
                            \<le> BIP32_MAX_LAST_ELEMENT, self)))"

text \<open>
  \<open>user i\<close> is the user's answer to the confirmation prompt for output \<open>i\<close>; it is read
  only where the code shows the prompt.
\<close>

definition confirm_output ::
  "env \<Rightarrow> (nat \<Rightarrow> bool) \<Rightarrow> Signer \<Rightarrow> nat \<Rightarrow> TxOutputType \<Rightarrow> TxOutputBinType \<Rightarrow> exn + Signer" where
  "confirm_output E user self i txo txo_bin =
     (case (if change_out self = 0 then output_is_change E self txo else Inr (False, self)) of
        Inl e \<Rightarrow> Inl e
      | Inr (is_change, self) \<Rightarrow>
          (case (if is_change then Inr (self\<lparr>change_out := TxOutputType.amount txo\<rparr>)
                 else if \<not> user i
                   then Inl (SigningError [Failure ActionCancelled, Message ''Output cancelled''])
                 else Inr self) of
             Inl e \<Rightarrow> Inl e
           | Inr self \<Rightarrow>
               Inr (self\<lparr>h_confirmed := write_tx_output (writers E) (h_confirmed self) txo_bin,
                         hash143 := bip143_add_output (primitives E) (hash143 self) txo_bin,
                         total_out := total_out self + TxOutputBinType.amount txo_bin\<rparr>)))"


record confirmations =
  confirm_feeoverthreshold :: bool
  confirm_nondefault_locktime :: bool
  confirm_total :: bool

definition step3_confirm_tran :: "env \<Rightarrow> confirmations \<Rightarrow> Signer \<Rightarrow> exn + unit" where
  "step3_confirm_tran E ui self =
     (let fee = total_in self - total_out self
      in case (if fee < 0 then on_negative_fee self else Inr ()) of
           Inl e \<Rightarrow> Inl e
         | Inr _ \<Rightarrow>
             if fee_over_threshold (primitives E) fee (maxfee_kb (coin self))
                  (weight_get_total (primitives E) (weight self))
                \<and> \<not> confirm_feeoverthreshold ui
               then Inl (SigningError [Failure ActionCancelled, Message ''Signing cancelled''])
             else if lock_time (tx self) > 0 \<and> \<not> confirm_nondefault_locktime ui
               then Inl (SigningError [Failure ActionCancelled, Message ''Locktime cancelled''])
             else if \<not> confirm_total ui
               then Inl (SigningError [Failure ActionCancelled, Message ''Total cancelled''])
             else Inr ())"

subsection \<open>Inputs\<close>

definition input_derive_script ::
  "env \<Rightarrow> Signer \<Rightarrow> TxInputType \<Rightarrow> bytes \<Rightarrow> bytes option \<Rightarrow> exn + bytes" where
  "input_derive_script E self txi pubkey sig =
     (if TxInputType.script_type txi = SPENDADDRESS
        then Inr (input_script_p2pkh_or_p2sh (scripts E) pubkey sig (get_hash_type self))
      else if TxInputType.script_type txi = SPENDP2SHWITNESS
        then (case multisig txi of
                Some ms \<Rightarrow>
                  (case multisig_get_pubkeys (multisig_m E) (multisig txi) of
                     Inl e \<Rightarrow> Inl e
                   | Inr pks \<Rightarrow>
                       (let witness_script_hasher =
                              write_output_script_multisig (scripts E) create_hash_writer pks (ms_m ms);
                            witness_script_hash = get_digest E witness_script_hasher
                        in Inr (input_script_p2wsh_in_p2sh (scripts E) witness_script_hash)))
              | None \<Rightarrow>
                  Inr (input_script_p2wpkh_in_p2sh (scripts E)
                         (ecdsa_hash_pubkey (addresses E) pubkey (coin self))))
      else if TxInputType.script_type txi = SPENDWITNESS
        then Inr (input_script_native_p2wpkh_or_p2wsh (scripts E))
      else if TxInputType.script_type txi = SPENDMULTISIG
        then (case multisig txi of
                None \<Rightarrow> Inl AttributeError
              | Some ms \<Rightarrow>
                  (case multisig_pubkey_index (multisig_m E) ms pubkey of
                     Inl e \<Rightarrow> Inl e
                   | Inr signature_index \<Rightarrow>
                       Inr (input_script_multisig (scripts E) ms sig signature_index
                              (get_hash_type self) (coin self))))
      else Inl (SigningError [Failure ProcessError, Message ''Invalid script type'']))"

subsection \<open>Authenticating the amount of a legacy input\<close>

text \<open>
  The host's replies while one previous transaction is streamed: its meta data, its
  inputs and outputs by index, and its extra data. \<open>prev_extra_data k ofs size\<close> is the
  reply to the \<open>k\<close>-th request for extra data, made at offset \<open>ofs\<close> for \<open>size\<close> bytes.
\<close>

record prev_tx_replies =
  tx_meta :: TransactionType
  prev_inputs :: "nat \<Rightarrow> TxInputType"
  prev_outputs :: "nat \<Rightarrow> TxOutputBinType"
  prev_extra_data :: "nat \<Rightarrow> nat \<Rightarrow> nat \<Rightarrow> bytes"

definition Bitcoin_write_prev_tx_footer ::
  "env \<Rightarrow> Signer \<Rightarrow> bytes \<Rightarrow> TransactionType \<Rightarrow> bytes" where
  "Bitcoin_write_prev_tx_footer E self w t = write_uint32 (writers E) w (lock_time t)"

text \<open>
  The loop over the extra data advances by the length of each reply, so it does not end
  when the host keeps sending empty replies; the result is \<open>None\<close> then.
\<close>

partial_function (option) extra_data_loop ::
  "env \<Rightarrow> (nat \<Rightarrow> nat \<Rightarrow> nat \<Rightarrow> bytes) \<Rightarrow> nat \<Rightarrow> nat \<Rightarrow> nat \<Rightarrow> bytes \<Rightarrow> bytes option" where
  "extra_data_loop E reply len k ofs w =
     (if ofs < len
      then extra_data_loop E reply len (Suc k)
             (ofs + length (reply k ofs (min 1024 (len - ofs))))
             (write_bytes_unchecked (writers E) w (reply k ofs (min 1024 (len - ofs))))
      else Some w)"

declare extra_data_loop.simps [code]

definition Bitcoinlike_write_prev_tx_footer ::
  "env \<Rightarrow> prev_tx_replies \<Rightarrow> Signer \<Rightarrow> bytes \<Rightarrow> TransactionType \<Rightarrow> bytes option" where
  "Bitcoinlike_write_prev_tx_footer E host self w t =
     (let w = Bitcoin_write_prev_tx_footer E self w t
      in if extra_data (coin self)
         then extra_data_loop E (prev_extra_data host) (extra_data_len t) 0 0 w
         else Some w)"

definition write_prev_tx_footer ::
  "env \<Rightarrow> prev_tx_replies \<Rightarrow> Signer \<Rightarrow> bytes \<Rightarrow> TransactionType \<Rightarrow> bytes option" where
  "write_prev_tx_footer E host self w t =
     (case cls self of
        Bitcoin \<Rightarrow> Some (Bitcoin_write_prev_tx_footer E self w t)
      | Bitcoinlike \<Rightarrow> Bitcoinlike_write_prev_tx_footer E host self w t)"

text \<open>
  The previous transaction as the host streams it and as the wire format lays it out,
  up to the footer: the header without the segwit marker, the number of inputs, the
  inputs in the order of their indices, the number of outputs, the outputs in the order
  of their indices.
\<close>

definition prevtx_serialization :: "env \<Rightarrow> prev_tx_replies \<Rightarrow> Signer \<Rightarrow> bytes" where
  "prevtx_serialization E host self =
     foldl (write_tx_output (writers E))
       (write_varint (writers E)
          (foldl (write_tx_input (writers E))
             (write_varint (writers E)
                (write_tx_header E self create_hash_writer (tx_meta host) False)
                (int (inputs_cnt (tx_meta host))))
             (map (prev_inputs host) [0..<inputs_cnt (tx_meta host)]))
          (int (outputs_cnt (tx_meta host))))
       (map (prev_outputs host) [0..<outputs_cnt (tx_meta host)])"

text \<open>
  The body of the previous transaction as it is hashed: header, inputs, outputs (the
  amount of output \<open>prev_index\<close> is kept; \<open>check_prevtx_output\<close> does nothing), footer.
  The parameters \<open>prev_hash\<close> and \<open>prev_index\<close> are written \<open>phash\<close> and \<open>pindex\<close>,
  apart from the fields of an input.
\<close>

definition hash_prevtx ::
  "env \<Rightarrow> prev_tx_replies \<Rightarrow> Signer \<Rightarrow> nat \<Rightarrow> (bytes \<times> int) option" where
  "hash_prevtx E host self pindex =
     (let amount_out = 0;
          t = tx_meta host;
          txh = create_hash_writer;
          txh = write_tx_header E self txh t False;
          txh = write_varint (writers E) txh (int (inputs_cnt t));
          txh = foldl (\<lambda>txh i. write_tx_input (writers E) txh (prev_inputs host i))
                  txh [0..<inputs_cnt t];
          txh = write_varint (writers E) txh (int (outputs_cnt t));
          (txh, amount_out) =
            foldl (\<lambda>(txh, amount_out) i.
                     let txo_bin = prev_outputs host i;
                         txh = write_tx_output (writers E) txh txo_bin
                     in if i = pindex then (txh, TxOutputBinType.amount txo_bin)
                        else (txh, amount_out))
                  (txh, amount_out) [0..<outputs_cnt t]
      in case write_prev_tx_footer E host self txh t of
           None \<Rightarrow> None
         | Some txh \<Rightarrow> Some (txh, amount_out))"

definition get_prevtx_output_value ::
  "env \<Rightarrow> prev_tx_replies \<Rightarrow> Signer \<Rightarrow> bytes \<Rightarrow> nat \<Rightarrow> (exn + int) option" where
  "get_prevtx_output_value E host self phash pindex =
     (if outputs_cnt (tx_meta host) \<le> pindex
      then Some (Inl (SigningError [Failure ProcessError,
                        Message ''Not enough outputs in previous transaction.'']))
      else
        case hash_prevtx E host self pindex of
          None \<Rightarrow> None
        | Some (txh, amount_out) \<Rightarrow>
            if get_tx_hash E txh (sign_hash_double (coin self)) True \<noteq> phash
            then Some (Inl (SigningError [Failure ProcessError,
                              Message ''Encountered invalid prev_hash'']))
            else Some (Inr amount_out))"

definition Bitcoin_process_nonsegwit_input ::
  "env \<Rightarrow> prev_tx_replies \<Rightarrow> Signer \<Rightarrow> nat \<Rightarrow> TxInputType \<Rightarrow> (exn + Signer) option" where
  "Bitcoin_process_nonsegwit_input E host self i txi =
     (let self = self\<lparr>segwit := (segwit self)(i \<mapsto> False)\<rparr>
      in case get_prevtx_output_value E host self (prev_hash txi) (prev_index txi) of
           None \<Rightarrow> None
         | Some (Inl e) \<Rightarrow> Some (Inl e)
         | Some (Inr v) \<Rightarrow> Some (Inr (self\<lparr>total_in := total_in self + v\<rparr>)))"

definition process_bip143_input :: "Signer \<Rightarrow> nat \<Rightarrow> TxInputType \<Rightarrow> exn + Signer" where
  "process_bip143_input self i txi =
     (case TxInputType.amount txi of
        None \<Rightarrow> Inl (SigningError [Failure DataError, Message ''Expected input with amount''])
      | Some a \<Rightarrow>
          if a = 0
          then Inl (SigningError [Failure DataError, Message ''Expected input with amount''])
          else Inr (self\<lparr>segwit := (segwit self)(i \<mapsto> False),
                         bip143_in := bip143_in self + a,
                         total_in := total_in self + a\<rparr>))"

definition Bitcoinlike_process_nonsegwit_input ::
  "env \<Rightarrow> prev_tx_replies \<Rightarrow> Signer \<Rightarrow> nat \<Rightarrow> TxInputType \<Rightarrow> (exn + Signer) option" where
  "Bitcoinlike_process_nonsegwit_input E host self i txi =
     (if force_bip143 (coin self) then Some (process_bip143_input self i txi)
      else Bitcoin_process_nonsegwit_input E host self i txi)"

definition process_nonsegwit_input ::
  "env \<Rightarrow> prev_tx_replies \<Rightarrow> Signer \<Rightarrow> nat \<Rightarrow> TxInputType \<Rightarrow> (exn + Signer) option" where
  "process_nonsegwit_input E host self i txi =
     (case cls self of
        Bitcoin \<Rightarrow> Bitcoin_process_nonsegwit_input E host self i txi
      | Bitcoinlike \<Rightarrow> Bitcoinlike_process_nonsegwit_input E host self i txi)"

subsection \<open>Processing an input in phase 1\<close>

definition Bitcoin_process_segwit_input :: "Signer \<Rightarrow> nat \<Rightarrow> TxInputType \<Rightarrow> exn + Signer" where
  "Bitcoin_process_segwit_input self i txi =
     (case TxInputType.amount txi of
        None \<Rightarrow> Inl (SigningError [Failure DataError, Message ''Segwit input without amount''])
      | Some a \<Rightarrow>
          if a = 0
          then Inl (SigningError [Failure DataError, Message ''Segwit input without amount''])
          else Inr (self\<lparr>segwit := (segwit self)(i \<mapsto> True),
                         bip143_in := bip143_in self + a,
                         total_in := total_in self + a\<rparr>))"

definition Bitcoinlike_process_segwit_input :: "Signer \<Rightarrow> nat \<Rightarrow> TxInputType \<Rightarrow> exn + Signer" where
  "Bitcoinlike_process_segwit_input self i txi =
     (if \<not> CoinInfo.segwit (coin self)
      then Inl (SigningError [Failure DataError, Message ''Segwit not enabled on this coin''])
      else Bitcoin_process_segwit_input self i txi)"

definition process_segwit_input :: "Signer \<Rightarrow> nat \<Rightarrow> TxInputType \<Rightarrow> exn + Signer" where
  "process_segwit_input self i txi =
     (case cls self of
        Bitcoin \<Rightarrow> Bitcoin_process_segwit_input self i txi
      | Bitcoinlike \<Rightarrow> Bitcoinlike_process_segwit_input self i txi)"

text \<open>
  \<open>process_input\<close>. The prompt for a path that \<open>validate_full_path\<close> does not know is
  shown by a helper and its result is not used, so it leaves no trace here.
\<close>

definition process_input ::
  "env \<Rightarrow> prev_tx_replies \<Rightarrow> Signer \<Rightarrow> nat \<Rightarrow> TxInputType \<Rightarrow> (exn + Signer) option" where
  "process_input E host self i txi =
     (case add_input WalletPathChecker_attribute_from_tx (wallet_path self) txi of
        Inl e \<Rightarrow> Some (Inl e)
      | Inr wp \<Rightarrow>
          (case add_input
                  (MultisigFingerprintChecker_attribute_from_tx
                     (multisig_module.multisig_fingerprint (multisig_m E)))
                  (Signer.multisig_fingerprint self) txi of
             Inl e \<Rightarrow> Some (Inl e)
           | Inr mf \<Rightarrow>
               (let self = self\<lparr>wallet_path := wp,
                               Signer.multisig_fingerprint := mf,
                               h_confirmed := write_tx_input_check (writers E) (h_confirmed self) txi,
                               hash143 := bip143_add_sequence (primitives E)
                                            (bip143_add_prevouts (primitives E) (hash143 self) txi)
                                            txi\<rparr>
                in if input_is_segwit E txi then Some (process_segwit_input self i txi)
                   else if input_is_nonsegwit E txi then process_nonsegwit_input E host self i txi
                   else Some (Inl (SigningError [Failure DataError,
                                     Message ''Wrong input script type''])))))"

subsection \<open>Signing\<close>

text \<open>
  The checks of both match checkers that open every signing function. \<open>txi\<close> is the
  host's reply to the request for the input.
\<close>

definition check_both :: "env \<Rightarrow> Signer \<Rightarrow> TxInputType \<Rightarrow> exn + unit" where
  "check_both E self txi =
     (case check_input WalletPathChecker_attribute_from_tx (wallet_path self) txi of
        Inl e \<Rightarrow> Inl e
      | Inr _ \<Rightarrow>
          check_input
            (MultisigFingerprintChecker_attribute_from_tx
               (multisig_module.multisig_fingerprint (multisig_m E)))
            (Signer.multisig_fingerprint self) txi)"

definition sign_segwit_input :: "env \<Rightarrow> Signer \<Rightarrow> nat \<Rightarrow> TxInputType \<Rightarrow> exn + Signer" where
  "sign_segwit_input E self i txi =
     (case check_both E self txi of
        Inl e \<Rightarrow> Inl e
      | Inr _ \<Rightarrow>
          if \<not> input_is_segwit E txi then Inl transaction_has_changed
          else
            case TxInputType.amount txi of
              None \<Rightarrow> Inl TypeError
            | Some a \<Rightarrow>
                if a > bip143_in self then Inl transaction_has_changed
                else
                  let self = self\<lparr>bip143_in := bip143_in self - a\<rparr>
                  in case keychain_derive (primitives E) (address_n txi) (curve_name (coin self)) of
                       Inl e \<Rightarrow> Inl e
                     | Inr node \<Rightarrow>
                         (let key_sign_pub = public_key node
                          in case bip143_preimage_hash (primitives E) (hash143 self) (coin self)
                                    (tx self) txi
                                    (ecdsa_hash_pubkey (addresses E) key_sign_pub (coin self))
                                    (get_hash_type self) of
                               Inl e \<Rightarrow> Inl e
                             | Inr hash143_hash \<Rightarrow>
                                 (let sig = ecdsa_sign E node hash143_hash
                                  in case (case multisig txi of
                                             Some ms \<Rightarrow>
                                               (case multisig_pubkey_index (multisig_m E) ms
                                                       key_sign_pub of
                                                  Inl e \<Rightarrow> Inl e
                                                | Inr signature_index \<Rightarrow>
                                                    Inr (witness_p2wsh (scripts E) ms sig
                                                           signature_index (get_hash_type self)))
                                           | None \<Rightarrow>
                                               Inr (witness_p2wpkh (scripts E) sig key_sign_pub
                                                      (get_hash_type self))) of
                                       Inl e \<Rightarrow> Inl e
                                     | Inr witness \<Rightarrow>
                                         Inr (self\<lparr>serialized_tx := serialized_tx self @ witness,
                                                   tx_req_signature_index := Some i,
                                                   tx_req_signature := Some sig\<rparr>))))"

definition sign_bip143_input :: "env \<Rightarrow> Signer \<Rightarrow> nat \<Rightarrow> TxInputType \<Rightarrow> exn + Signer" where
  "sign_bip143_input E self i_sign txi_sign =
     (case check_both E self txi_sign of
        Inl e \<Rightarrow> Inl e
      | Inr _ \<Rightarrow>
          let is_bip143 = (TxInputType.script_type txi_sign = SPENDADDRESS
                           \<or> TxInputType.script_type txi_sign = SPENDMULTISIG)
          in if \<not> is_bip143 then Inl transaction_has_changed
             else
               case TxInputType.amount txi_sign of
                 None \<Rightarrow> Inl TypeError
               | Some a \<Rightarrow>
                   if a > bip143_in self then Inl transaction_has_changed
                   else
                     let self = self\<lparr>bip143_in := bip143_in self - a\<rparr>
                     in case keychain_derive (primitives E) (address_n txi_sign)
                               (curve_name (coin self)) of
                          Inl e \<Rightarrow> Inl e
                        | Inr key_sign \<Rightarrow>
                            (let key_sign_pub = public_key key_sign
                             in case bip143_preimage_hash (primitives E) (hash143 self) (coin self)
                                       (tx self) txi_sign
                                       (ecdsa_hash_pubkey (addresses E) key_sign_pub (coin self))
                                       (get_hash_type self) of
                                  Inl e \<Rightarrow> Inl e
                                | Inr hash143_hash \<Rightarrow>
                                    (case (case multisig txi_sign of
                                             None \<Rightarrow> Inr 0
                                           | Some ms \<Rightarrow>
                                               multisig_pubkey_index (multisig_m E) ms key_sign_pub) of
                                       Inl e \<Rightarrow> Inl e
                                     | Inr _ \<Rightarrow>
                                         (let sig = ecdsa_sign E key_sign hash143_hash
                                          in case input_derive_script E self txi_sign key_sign_pub
                                                    (Some sig) of
                                               Inl e \<Rightarrow> Inl e
                                             | Inr script \<Rightarrow>
                                                 Inr (self\<lparr>serialized_tx :=
                                                             write_tx_input (writers E)
                                                               (serialized_tx self)
                                                               (txi_sign\<lparr>script_sig := script\<rparr>),
                                                           tx_req_signature_index := Some i_sign,
                                                           tx_req_signature := Some sig\<rparr>)))))"

text \<open>
  The local variables of \<open>sign_nonsegwit_input\<close> when its two loops are over.
  \<open>txi_sign\<close>, \<open>node\<close> and \<open>key_sign_pub\<close> are bound together, in the iteration of the
  input that is signed; \<open>signing\<close> holds the three, or \<open>None\<close> while they are unbound.
\<close>

record sign_locals =
  h_sign :: bytes
  h_check :: bytes
  signing :: "(TxInputType \<times> HDNode \<times> bytes) option"

definition sign_script_sig :: "env \<Rightarrow> Signer \<Rightarrow> TxInputType \<Rightarrow> bytes \<Rightarrow> exn + bytes" where
  "sign_script_sig E self txi key_sign_pub =
     (if TxInputType.script_type txi = SPENDMULTISIG
        then (case multisig_get_pubkeys (multisig_m E) (multisig txi) of
                Inl e \<Rightarrow> Inl e
              | Inr pks \<Rightarrow>
                  (case multisig txi of
                     None \<Rightarrow> Inl AttributeError
                   | Some ms \<Rightarrow> Inr (output_script_multisig (scripts E) pks (ms_m ms))))
      else if TxInputType.script_type txi = SPENDADDRESS
        then Inr (output_script_p2pkh (scripts E)
                    (ecdsa_hash_pubkey (addresses E) key_sign_pub (coin self)))
      else Inl (SigningError [Failure ProcessError, Message ''Unknown transaction type'']))"

definition sign_input_body ::
  "env \<Rightarrow> (nat \<Rightarrow> TxInputType) \<Rightarrow> Signer \<Rightarrow> nat \<Rightarrow> nat \<Rightarrow> sign_locals \<Rightarrow> exn + sign_locals" where
  "sign_input_body E ins self i_sign i L =
     (let txi = ins i;
          L = L\<lparr>h_check := write_tx_input_check (writers E) (h_check L) txi\<rparr>
      in case (if i = i_sign
               then (case check_both E self txi of
                       Inl e \<Rightarrow> Inl e
                     | Inr _ \<Rightarrow>
                         (case keychain_derive (primitives E) (address_n txi)
                                 (curve_name (coin self)) of
                            Inl e \<Rightarrow> Inl e
                          | Inr node \<Rightarrow>
                              (let key_sign_pub = public_key node
                               in case sign_script_sig E self txi key_sign_pub of
                                    Inl e \<Rightarrow> Inl e
                                  | Inr script \<Rightarrow>
                                      (let txi = txi\<lparr>script_sig := script\<rparr>
                                       in Inr (txi, Some (txi, node, key_sign_pub))))))
               else Inr (txi\<lparr>script_sig := []\<rparr>, signing L)) of
           Inl e \<Rightarrow> Inl e
         | Inr (txi, sg) \<Rightarrow>
             Inr (L\<lparr>h_sign := write_tx_input (writers E) (h_sign L) txi, signing := sg\<rparr>))"

definition sign_output_body ::
  "env \<Rightarrow> (nat \<Rightarrow> TxOutputType) \<Rightarrow> Signer \<Rightarrow> nat \<Rightarrow> sign_locals \<Rightarrow> exn + sign_locals" where
  "sign_output_body E outs self i L =
     (let txo = outs i
      in case output_derive_script E self txo of
           Inl e \<Rightarrow> Inl e
         | Inr script \<Rightarrow>
             (let txo_bin = \<lparr>TxOutputBinType.amount = TxOutputType.amount txo,
                             script_pubkey = script\<rparr>
              in Inr (L\<lparr>h_check := write_tx_output (writers E) (h_check L) txo_bin,
                        h_sign := write_tx_output (writers E) (h_sign L) txo_bin\<rparr>)))"

text \<open>
  \<open>sign_nonsegwit_input\<close> up to the comparison of the control digests: the inputs and the
  outputs are streamed again, \<open>ins i\<close> and \<open>outs i\<close> being the host's replies.
\<close>

definition sign_nonsegwit_stream ::
  "env \<Rightarrow> (nat \<Rightarrow> TxInputType) \<Rightarrow> (nat \<Rightarrow> TxOutputType) \<Rightarrow> Signer \<Rightarrow> nat
     \<Rightarrow> exn + sign_locals" where
  "sign_nonsegwit_stream E ins outs self i_sign =
     (let L = \<lparr>h_sign = write_sign_tx_header E self create_hash_writer False,
                h_check = create_hash_writer,
                signing = None\<rparr>
      in case for_loop [0..<inputs_count (tx self)] (sign_input_body E ins self i_sign) L of
           Inl e \<Rightarrow> Inl e
         | Inr L \<Rightarrow>
             (let L = L\<lparr>h_sign := write_varint (writers E) (h_sign L)
                                    (int (outputs_count (tx self)))\<rparr>
              in case for_loop [0..<outputs_count (tx self)] (sign_output_body E outs self) L of
                   Inl e \<Rightarrow> Inl e
                 | Inr L \<Rightarrow>
                     Inr (L\<lparr>h_sign :=
                               write_uint32 (writers E)
                                 (write_uint32 (writers E) (h_sign L) (lock_time (tx self)))
                                 (get_hash_type self)\<rparr>)))"

text \<open>The rest of \<open>sign_nonsegwit_input\<close>, from the comparison of the control digests on.\<close>

definition sign_nonsegwit_finish :: "env \<Rightarrow> Signer \<Rightarrow> nat \<Rightarrow> sign_locals \<Rightarrow> exn + Signer" where
  "sign_nonsegwit_finish E self i_sign L =
     (if get_digest E (h_confirmed self) \<noteq> get_digest E (h_check L)
      then Inl transaction_has_changed
      else
        case signing L of
          None \<Rightarrow> Inl UnboundLocalError
        | Some (txi_sign, node, key_sign_pub) \<Rightarrow>
            (case (case multisig txi_sign of
                     None \<Rightarrow> Inr 0
                   | Some ms \<Rightarrow> multisig_pubkey_index (multisig_m E) ms key_sign_pub) of
               Inl e \<Rightarrow> Inl e
             | Inr _ \<Rightarrow>
                 (let sig = ecdsa_sign E node
                              (get_tx_hash E (h_sign L)
                                 (sign_hash_double (coin self)) False)
                  in case input_derive_script E self txi_sign key_sign_pub (Some sig) of
                       Inl e \<Rightarrow> Inl e
                     | Inr script \<Rightarrow>
                         Inr (self\<lparr>serialized_tx :=
                                     write_tx_input (writers E) (serialized_tx self)
                                       (txi_sign\<lparr>script_sig := script\<rparr>),
                                   tx_req_signature_index := Some i_sign,
                                   tx_req_signature := Some sig\<rparr>))))"

definition Bitcoin_sign_nonsegwit_input ::
  "env \<Rightarrow> (nat \<Rightarrow> TxInputType) \<Rightarrow> (nat \<Rightarrow> TxOutputType) \<Rightarrow> Signer \<Rightarrow> nat \<Rightarrow> exn + Signer" where
  "Bitcoin_sign_nonsegwit_input E ins outs self i_sign =
     (case sign_nonsegwit_stream E ins outs self i_sign of
        Inl e \<Rightarrow> Inl e
      | Inr L \<Rightarrow> sign_nonsegwit_finish E self i_sign L)"

definition Bitcoinlike_sign_nonsegwit_input ::
  "env \<Rightarrow> (nat \<Rightarrow> TxInputType) \<Rightarrow> (nat \<Rightarrow> TxOutputType) \<Rightarrow> Signer \<Rightarrow> nat \<Rightarrow> exn + Signer" where
  "Bitcoinlike_sign_nonsegwit_input E ins outs self i_sign =
     (if force_bip143 (coin self) then sign_bip143_input E self i_sign (ins i_sign)
      else Bitcoin_sign_nonsegwit_input E ins outs self i_sign)"

definition sign_nonsegwit_input ::
  "env \<Rightarrow> (nat \<Rightarrow> TxInputType) \<Rightarrow> (nat \<Rightarrow> TxOutputType) \<Rightarrow> Signer \<Rightarrow> nat \<Rightarrow> exn + Signer" where
  "sign_nonsegwit_input E ins outs self i_sign =
     (case cls self of
        Bitcoin \<Rightarrow> Bitcoin_sign_nonsegwit_input E ins outs self i_sign
      | Bitcoinlike \<Rightarrow> Bitcoinlike_sign_nonsegwit_input E ins outs self i_sign)"

section \<open>A concrete environment\<close>

text \<open>
  A small environment on which the model can be run: the script type tables, and simple
  stand-ins for the encoders, the hash and the key derivation. The hash puts one byte
  in front of its argument, a serializer appends a few fields of its argument, and the
  CashAddr decoder reads the version from the length of the payload.
\<close>

definition demo_helpers :: helpers_module where
  "demo_helpers =
     \<lparr>CHANGE_OUTPUT_SCRIPT_TYPES = [PAYTOADDRESS, PAYTOMULTISIG, PAYTOP2SHWITNESS, PAYTOWITNESS],
      CHANGE_OUTPUT_TO_INPUT_SCRIPT_TYPES =
        [PAYTOADDRESS \<mapsto> SPENDADDRESS, PAYTOMULTISIG \<mapsto> SPENDMULTISIG,
         PAYTOP2SHWITNESS \<mapsto> SPENDP2SHWITNESS, PAYTOWITNESS \<mapsto> SPENDWITNESS],
      SEGWIT_INPUT_SCRIPT_TYPES = [SPENDP2SHWITNESS, SPENDWITNESS],
      NONSEGWIT_INPUT_SCRIPT_TYPES = [SPENDADDRESS, SPENDMULTISIG]\<rparr>"

definition demo_multisig :: multisig_module where
  "demo_multisig =
     \<lparr>multisig_module.multisig_fingerprint = (\<lambda>ms. concat (pubkeys ms) @ [of_nat (ms_m ms)]),
      multisig_pubkey_index = (\<lambda>ms pk. Inr 0),
      multisig_get_pubkeys =
        (\<lambda>r. case r of None \<Rightarrow> Inl AttributeError | Some ms \<Rightarrow> Inr (pubkeys ms))\<rparr>"

definition demo_writers :: writers_module where
  "demo_writers =
     \<lparr>write_uint32 = (\<lambda>w n. w @ [word_of_int n]),
      write_varint = (\<lambda>w n. w @ [word_of_int n]),
      write_bytes_unchecked = (\<lambda>w d. w @ d),
      write_tx_input = (\<lambda>w txi. w @ prev_hash txi @ script_sig txi),
      write_tx_input_check = (\<lambda>w txi. w @ prev_hash txi @ [of_nat (prev_index txi)]),
      write_tx_output =
        (\<lambda>w txo. w @ word_of_int (TxOutputBinType.amount txo) # script_pubkey txo)\<rparr>"

definition demo_scripts :: scripts_module where
  "demo_scripts =
     \<lparr>output_script_paytoopreturn = (\<lambda>d. 106 # d),
      output_script_native_p2wpkh_or_p2wsh = (\<lambda>p. 0 # p),
      output_script_p2pkh = (\<lambda>h. 118 # h),
      output_script_p2sh = (\<lambda>h. 169 # h),
      output_script_multisig = (\<lambda>pks n. of_nat n # concat pks),
      write_output_script_multisig = (\<lambda>w pks n. w @ of_nat n # concat pks),
      input_script_p2pkh_or_p2sh = (\<lambda>pk sg h. (case sg of None \<Rightarrow> [] | Some x \<Rightarrow> x) @ pk),
      input_script_p2wsh_in_p2sh = (\<lambda>h. 34 # h),
      input_script_p2wpkh_in_p2sh = (\<lambda>h. 22 # h),
      input_script_native_p2wpkh_or_p2wsh = [],
      input_script_multisig = (\<lambda>ms sg k h c. (case sg of None \<Rightarrow> [] | Some x \<Rightarrow> x)),
      witness_p2wsh = (\<lambda>ms sg k h. 3 # sg),
      witness_p2wpkh = (\<lambda>sg pk h. 2 # sg @ pk)\<rparr>"

definition demo_addresses :: addresses_module where
  "demo_addresses =
     \<lparr>decode_bech32_address = (\<lambda>p a. Inr (map (\<lambda>c. of_nat (of_char c)) a)),
      get_address = (\<lambda>t c n ms. Inr (CHR 0x00 # map (\<lambda>b. char_of (unat b)) (public_key n))),
      ecdsa_hash_pubkey = (\<lambda>pk c. pk),
      address_type_check = (\<lambda>t raw. raw \<noteq> [] \<and> uint (hd raw) = t),
      address_type_strip = (\<lambda>t raw. tl raw),
      base58_decode_check =
        (\<lambda>a h. case a of
                 None \<Rightarrow> Inl TypeError
               | Some s \<Rightarrow> if s = [] then Inl ValueError
                           else Inr (map (\<lambda>c. of_nat (of_char c)) s)),
      cashaddr_decode =
        (\<lambda>p a. if a = [] then Inl ValueError else Inr (int (length a) - 1, [])),
      ADDRESS_TYPE_P2KH = 0,
      ADDRESS_TYPE_P2SH = 8\<rparr>"

definition demo_primitives :: primitives_module where
  "demo_primitives =
     \<lparr>sha256 = (\<lambda>b. 90 # b),
      keychain_derive =
        (\<lambda>path curve. Inr \<lparr>private_key = map of_nat path, public_key = map of_nat path\<rparr>),
      secp256k1_sign = (\<lambda>k d. k @ d),
      der_encode_seq = concat,
      bip143_init = \<lparr>h_prevouts = [], h_sequence = [], h_outputs = []\<rparr>,
      bip143_add_prevouts = (\<lambda>h txi. h\<lparr>h_prevouts := h_prevouts h @ prev_hash txi\<rparr>),
      bip143_add_sequence = (\<lambda>h txi. h\<lparr>h_sequence := h_sequence h @ [of_nat (sequence txi)]\<rparr>),
      bip143_add_output = (\<lambda>h txo. h\<lparr>h_outputs := h_outputs h @ script_pubkey txo\<rparr>),
      bip143_preimage_hash = (\<lambda>h c t txi pkh ht. Inr (h_prevouts h @ h_outputs h @ pkh)),
      weight_init = (\<lambda>n k. 0),
      weight_add_output = (\<lambda>w sc. w + int (length sc)),
      weight_get_total = (\<lambda>w. w),
      fee_over_threshold = (\<lambda>fee maxfee total. fee * 4000 > maxfee * total)\<rparr>"

definition demo_env :: env where
  "demo_env =
     \<lparr>helpers = demo_helpers, multisig_m = demo_multisig, writers = demo_writers,
      scripts = demo_scripts, addresses = demo_addresses, primitives = demo_primitives\<rparr>"

definition demo_coin :: CoinInfo where
  "demo_coin =
     \<lparr>address_type = 0, address_type_p2sh = 5, bech32_prefix = Some ''bc'',
      cashaddr_prefix = None, curve_name = ''secp256k1'', maxfee_kb = 2000000,
      sign_hash_double = True, segwit = True, force_bip143 = False, negative_fee = False,
      fork_id = None, extra_data = False, timestamp = False, b58_hash = 0\<rparr>"

definition demo_tx :: SignTx where
  "demo_tx = \<lparr>version = 1, lock_time = 0, timestamp = 0, inputs_count = 1, outputs_count = 2\<rparr>"

text \<open>
  A native segwit input of 200 000 at m/84'/0'/0'/0/7 and a change output of 48 000 at
  m/84'/0'/0'/1/3.
\<close>

definition demo_txi :: TxInputType where
  "demo_txi =
     \<lparr>address_n = [2147483732, 2147483648, 2147483648, 0, 7], multisig = None,
      prev_hash = [1, 2, 3], prev_index = 0, script_sig = [], sequence = 4294967295,
      script_type = SPENDWITNESS, amount = Some 200000\<rparr>"


definition demo_prev :: prev_tx_replies where
  "demo_prev =
     \<lparr>tx_meta = \<lparr>version = 1, lock_time = 0, timestamp = 0,
                 inputs_cnt = 0, outputs_cnt = 1, extra_data_len = 0\<rparr>,
      prev_inputs = (\<lambda>i. demo_txi),
      prev_outputs = (\<lambda>i. \<lparr>TxOutputBinType.amount = 50000, script_pubkey = [118, 7]\<rparr>),
      prev_extra_data = (\<lambda>k ofs size. [])\<rparr>"

text \<open>The same input for a two-of-two multisig wallet.\<close>

definition demo_ms :: MultisigRedeemScriptType where
  "demo_ms = \<lparr>pubkeys = [[2, 11], [3, 12]], signatures = [], ms_m = 2\<rparr>"

definition demo_txi_ms :: TxInputType where
  "demo_txi_ms = demo_txi\<lparr>multisig := Some demo_ms\<rparr>"

text \<open>
  A legacy input at m/44'/0'/0'/0/0 that names output 0 of a previous transaction;
  a coin of the Bitcoin Cash kind; a host that answers every request for extra data with
  no data; and a user who accepts every prompt of phase 3.
\<close>

definition demo_txi_legacy :: TxInputType where
  "demo_txi_legacy =
     \<lparr>address_n = [2147483692, 2147483648, 2147483648, 0, 0], multisig = None,
      prev_hash = [0, 7, 118, 80, 1, 0, 1], prev_index = 0, script_sig = [],
      sequence = 4294967295, script_type = SPENDADDRESS, amount = None\<rparr>"

definition demo_cash_coin :: CoinInfo where
  "demo_cash_coin =
     demo_coin\<lparr>bech32_prefix := None, cashaddr_prefix := Some ''bitcoincash'',
                CoinInfo.segwit := False, force_bip143 := True, fork_id := Some 0\<rparr>"

definition demo_stalling :: prev_tx_replies where
  "demo_stalling = demo_prev\<lparr>tx_meta := (tx_meta demo_prev)\<lparr>extra_data_len := 5\<rparr>\<rparr>"

definition demo_all_yes :: confirmations where
  "demo_all_yes =
     \<lparr>confirm_feeoverthreshold = True, confirm_nondefault_locktime = True,
      confirm_total = True\<rparr>"

text \<open>
  A payment of 40 000 to a bech32 address and an output of 9 000 at m/44'/0'/0'/1/0.
\<close>

definition demo_pay :: TxOutputType where
  "demo_pay =
     \<lparr>address_n = [], multisig = None, address = Some ''bc1qw508d'', amount = 40000,
      script_type = PAYTOADDRESS, op_return_data = []\<rparr>"







text \<open>
  A previous transaction with one input and two outputs, and a legacy input that spends
  its output 1 and names it by the reversed double hash of this environment.
\<close>

definition demo_prev2 :: prev_tx_replies where
  "demo_prev2 =
     \<lparr>tx_meta = \<lparr>version = 1, lock_time = 0, timestamp = 0,
                 inputs_cnt = 1, outputs_cnt = 2, extra_data_len = 0\<rparr>,
      prev_inputs = (\<lambda>i. demo_txi),
      prev_outputs =
        (\<lambda>i. if i = 0 then \<lparr>TxOutputBinType.amount = 1000, script_pubkey = [118, 1]\<rparr>
              else \<lparr>TxOutputBinType.amount = 50000, script_pubkey = [118, 7]\<rparr>),
      prev_extra_data = (\<lambda>k ofs size. [])\<rparr>"


text \<open>
  A payment to a CashAddr address whose version this decoder reads as 1, neither pay
  to public key hash (0) nor pay to script hash (8).
\<close>

definition demo_cashaddr_pay :: TxOutputType where
  "demo_cashaddr_pay = demo_pay\<lparr>address := Some ''bitcoincash:qy''\<rparr>"

subsection \<open>Sequences of calls on one checker\<close>

datatype 't call = Add_input 't | Output_matches 't

text \<open>
  A call that raises leaves the checker as it was: the assertion is the first statement
  of \<open>add_input\<close>.
\<close>

fun apply_call :: "('t \<Rightarrow> 'a list option) \<Rightarrow> 'a MatchChecker \<Rightarrow> 't call \<Rightarrow> 'a MatchChecker" where
  "apply_call afx self (Add_input t) =
     (case add_input afx self t of Inl e \<Rightarrow> self | Inr self' \<Rightarrow> self')"
| "apply_call afx self (Output_matches t) = snd (output_matches afx self t)"

definition run_calls ::
  "('t \<Rightarrow> 'a list option) \<Rightarrow> 'a MatchChecker \<Rightarrow> 't call list \<Rightarrow> 'a MatchChecker" where
  "run_calls afx self cs = foldl (apply_call afx) self cs"

text \<open>
  The transitions as the invariant lists them: from \<open>UNDEFINED\<close> to a value, from a value
  to the same value or to \<open>MISMATCH\<close>, and \<open>MISMATCH\<close> for ever. A call that leaves the
  attribute alone is no transition.
\<close>

fun listed_transition :: "'a attr \<Rightarrow> 'a attr \<Rightarrow> bool" where
  "listed_transition UNDEFINED UNDEFINED = True"
| "listed_transition UNDEFINED (Value v) = True"
| "listed_transition (Value v) (Value w) = (v = w)"
| "listed_transition (Value v) MISMATCH = True"
| "listed_transition MISMATCH MISMATCH = True"
| "listed_transition _ _ = False"

section \<open>Properties of the match checkers\<close>

lemma add_input_raises: "add_input afx self t = Inl NameError"
  by (simp add: add_input_def ensure_def)

lemma output_matches_attribute:
  "attribute (snd (output_matches afx self t)) = attribute self"
  by (simp add: output_matches_def Let_def)

lemma output_matches_read_only:
  "read_only (snd (output_matches afx self t))"
  by (simp add: output_matches_def Let_def)

lemma output_matches_UNDEFINED:
  "attribute self = UNDEFINED \<Longrightarrow> \<not> fst (output_matches afx self t)"
  by (simp add: output_matches_def attribute_eq_def Let_def split: option.splits)

lemma check_input_UNDEFINED:
  "attribute self = UNDEFINED \<Longrightarrow> check_input afx self t = Inl transaction_has_changed"
  by (simp add: check_input_def attribute_eq_def split: option.splits)

lemma listed_transition_refl: "listed_transition a a"
  by (cases a) auto

lemma apply_call_attribute:
  "attribute (apply_call afx self c) = attribute self"
  by (cases c) (simp_all add: add_input_raises output_matches_attribute)

lemma run_calls_attribute:
  "attribute (run_calls afx self cs) = attribute self"
  unfolding run_calls_def
  by (induction cs arbitrary: self) (simp_all add: apply_call_attribute)

lemma apply_call_read_only:
  "read_only self \<Longrightarrow> read_only (apply_call afx self c)"
  by (cases c) (simp_all add: add_input_raises output_matches_read_only)

lemma run_calls_read_only:
  "read_only self \<Longrightarrow> read_only (run_calls afx self cs)"
  unfolding run_calls_def
  by (induction cs arbitrary: self) (simp_all add: apply_call_read_only)

text \<open>
  Claim C8. No call of \<open>add_input\<close> or \<open>output_matches\<close> takes the attribute off the
  listed transitions: \<open>output_matches\<close> does not assign it and \<open>add_input\<close> raises before
  it assigns anything, so the attribute is after any sequence of calls what it was before
  (a checker in \<open>MISMATCH\<close> stays there). \<open>output_matches\<close> sets \<open>read_only\<close>, the flag stays
  set through any further calls, and every later \<open>add_input\<close> fails.
\<close>

theorem C8_match_checker_transitions:
  "listed_transition (attribute self) (attribute (apply_call afx self c))
   \<and> attribute (run_calls afx self cs) = attribute self
   \<and> read_only (snd (output_matches afx self txo))
   \<and> read_only (run_calls afx (snd (output_matches afx self txo)) cs)
   \<and> add_input afx (run_calls afx (snd (output_matches afx self txo)) cs) txi
       = Inl NameError"
  by (simp add: apply_call_attribute listed_transition_refl run_calls_attribute
        output_matches_read_only run_calls_read_only add_input_raises)

text \<open>
  The theorem at the new checker of the multisig fingerprint, with a multisig input
  added, an output tested and an input added again.
\<close>

theorem C8_match_checker_transitions_witness:
  "attribute (run_calls
       (MultisigFingerprintChecker_attribute_from_tx
          (multisig_module.multisig_fingerprint demo_multisig))
       MatchChecker_init
       [Add_input demo_txi_ms, Output_matches demo_txi_ms, Add_input demo_txi])
     = UNDEFINED
   \<and> add_input
       (MultisigFingerprintChecker_attribute_from_tx
          (multisig_module.multisig_fingerprint demo_multisig))
       (run_calls
          (MultisigFingerprintChecker_attribute_from_tx
             (multisig_module.multisig_fingerprint demo_multisig))
          (snd (output_matches
                  (MultisigFingerprintChecker_attribute_from_tx
                     (multisig_module.multisig_fingerprint demo_multisig))
                  MatchChecker_init demo_txi_ms))
          [Add_input demo_txi])
       demo_txi_ms
     = Inl NameError"
  using C8_match_checker_transitions
          [of MatchChecker_init
              "MultisigFingerprintChecker_attribute_from_tx
                 (multisig_module.multisig_fingerprint demo_multisig)"
              "Add_input demo_txi_ms"
              "[Add_input demo_txi_ms, Output_matches demo_txi_ms, Add_input demo_txi]"]
        C8_match_checker_transitions
          [of MatchChecker_init
              "MultisigFingerprintChecker_attribute_from_tx
                 (multisig_module.multisig_fingerprint demo_multisig)"
              "Add_input demo_txi_ms" "[Add_input demo_txi]" demo_txi_ms demo_txi_ms]
  by (simp add: MatchChecker_init_def)

section \<open>The states of the signer\<close>


lemma process_input_raises:
  "process_input E host self i txi = Some (Inl NameError)"
  by (simp add: process_input_def add_input_raises)



lemma sign_segwit_input_attribute:
  assumes "sign_segwit_input E self i txi = Inr self'"
  shows "wallet_path self' = wallet_path self
       \<and> Signer.multisig_fingerprint self' = Signer.multisig_fingerprint self"
  using assms
  by (auto simp: sign_segwit_input_def Let_def split: if_splits sum.splits option.splits)

lemma sign_nonsegwit_finish_attribute:
  assumes "sign_nonsegwit_finish E self i_sign L = Inr self'"
  shows "wallet_path self' = wallet_path self
       \<and> Signer.multisig_fingerprint self' = Signer.multisig_fingerprint self"
  using assms
  by (auto simp: sign_nonsegwit_finish_def Let_def
           split: if_splits sum.splits option.splits prod.splits)

section \<open>Change outputs\<close>

text \<open>
  What \<open>output_is_change\<close> requires of an output that it accepts, in any state: the
  checker of the multisig fingerprint is asked only for an output with a descriptor.
\<close>

lemma output_is_change_accepts:
  assumes "output_is_change E self txo = Inr (True, self')"
  shows "TxOutputType.script_type txo \<in> set (CHANGE_OUTPUT_SCRIPT_TYPES (helpers E))
       \<and> fst (output_matches WalletPathChecker_attribute_from_tx (wallet_path self) txo)
       \<and> (multisig txo \<noteq> None \<longrightarrow>
            fst (output_matches
                   (MultisigFingerprintChecker_attribute_from_tx
                      (multisig_module.multisig_fingerprint (multisig_m E)))
                   (Signer.multisig_fingerprint self) txo))
       \<and> 2 \<le> length (address_n txo)
       \<and> address_n txo ! (length (address_n txo) - 2) \<le> 1
       \<and> address_n txo ! (length (address_n txo) - 1) \<le> 1000000"
  using assms
  by (auto simp: output_is_change_def Let_def BIP32_CHANGE_CHAIN_def BIP32_MAX_LAST_ELEMENT_def
           output_matches_def
           split: if_splits option.splits prod.splits bool.splits)




section \<open>Confirmation of the outputs\<close>

text \<open>
  In any state: once \<open>change_out\<close> is not zero, every further output is shown to the
  user, and an output that the user declines ends the session with \<open>ActionCancelled\<close>.
\<close>

lemma confirm_output_after_change:
  assumes "change_out self \<noteq> 0"
  shows "confirm_output E user self i txo txo_bin
           = (if user i
              then Inr (self\<lparr>h_confirmed := write_tx_output (writers E) (h_confirmed self) txo_bin,
                             hash143 := bip143_add_output (primitives E) (hash143 self) txo_bin,
                             total_out := total_out self + TxOutputBinType.amount txo_bin\<rparr>)
              else Inl (SigningError [Failure ActionCancelled, Message ''Output cancelled'']))"
  using assms by (simp add: confirm_output_def)





lemmas output_defs = output_derive_script_def get_address_for_change_def startswith_def
  output_script_from_raw_address_def get_raw_address_def Bitcoin_get_raw_address_def


lemma demo_env_sel:
  "helpers demo_env = demo_helpers" "multisig_m demo_env = demo_multisig"
  "writers demo_env = demo_writers" "scripts demo_env = demo_scripts"
  "addresses demo_env = demo_addresses" "primitives demo_env = demo_primitives"
  by (simp_all add: demo_env_def)


lemma upt_0_2: "[0..<2] = [0, Suc 0]"
  by (simp add: upt_rec)







section \<open>Sighash type and negative fee\<close>

text \<open>
  Claim C5, as the code has it. A coin without fork id gets \<open>SIGHASH_ALL\<close> from either
  class; the \<open>Bitcoinlike\<close> signer returns \<open>0x01 | (fork_id << 8) | 0x40\<close> for a coin with
  a fork id, which is \<open>0x00007941\<close> for the fork id \<open>0x79\<close>; the \<open>Bitcoin\<close> signer returns
  \<open>SIGHASH_ALL\<close> for every coin.
\<close>

theorem C5_get_hash_type:
  "(fork_id (coin self) = None \<longrightarrow> get_hash_type self = 0x01)
   \<and> (cls self = Bitcoinlike \<and> fork_id (coin self) = Some f \<longrightarrow>
        get_hash_type self = (0x01 OR push_bit 8 f) OR 0x40)
   \<and> (cls self = Bitcoinlike \<and> fork_id (coin self) = Some 0x79 \<longrightarrow>
        get_hash_type self = 0x00007941)
   \<and> (cls self = Bitcoin \<longrightarrow> get_hash_type self = 0x01)"
  by (cases "cls self")
     (auto simp: get_hash_type_def Bitcoin_get_hash_type_def Bitcoinlike_get_hash_type_def
           Let_def or.assoc)

text \<open>The theorem at a coin without fork id and at a coin with the fork id \<open>0x79\<close>.\<close>

theorem C5_get_hash_type_witness:
  "fork_id (coin (initialize demo_env Bitcoinlike demo_tx demo_coin)) = None
   \<and> get_hash_type (initialize demo_env Bitcoinlike demo_tx demo_coin) = 0x01
   \<and> cls (initialize demo_env Bitcoinlike demo_tx (demo_coin\<lparr>fork_id := Some 0x79\<rparr>)) = Bitcoinlike
   \<and> fork_id (coin (initialize demo_env Bitcoinlike demo_tx (demo_coin\<lparr>fork_id := Some 0x79\<rparr>)))
       = Some 0x79
   \<and> get_hash_type (initialize demo_env Bitcoinlike demo_tx (demo_coin\<lparr>fork_id := Some 0x79\<rparr>))
       = 0x00007941
   \<and> cls (initialize demo_env Bitcoin demo_tx demo_coin) = Bitcoin
   \<and> get_hash_type (initialize demo_env Bitcoin demo_tx demo_coin) = 0x01"
  using C5_get_hash_type [of "initialize demo_env Bitcoinlike demo_tx demo_coin" 0]
        C5_get_hash_type
          [of "initialize demo_env Bitcoinlike demo_tx (demo_coin\<lparr>fork_id := Some 0x79\<rparr>)" "0x79"]
        C5_get_hash_type [of "initialize demo_env Bitcoin demo_tx demo_coin" 0]
  by (simp add: initialize_def demo_coin_def)

text \<open>
  The claim as it is written fails for the \<open>Bitcoin\<close> signer, which has no fork id in its
  sighash type: with a coin whose fork id is \<open>0x79\<close> it still returns \<open>SIGHASH_ALL\<close>.
\<close>

theorem C5_counterexample:
  "fork_id (coin (initialize demo_env Bitcoin demo_tx (demo_coin\<lparr>fork_id := Some 0x79\<rparr>)))
     = Some 0x79
   \<and> get_hash_type (initialize demo_env Bitcoin demo_tx (demo_coin\<lparr>fork_id := Some 0x79\<rparr>))
       \<noteq> (0x01 OR push_bit 8 0x79) OR 0x40"
  by (simp add: initialize_def get_hash_type_def Bitcoin_get_hash_type_def)

text \<open>
  Claim C6, as the code has it. In phase 3 a negative difference of \<open>total_in\<close> and
  \<open>total_out\<close> brings the result of \<open>on_negative_fee\<close>: its exception ends the phase.
  \<open>on_negative_fee\<close> raises \<open>NotEnoughFunds\<close> for every coin whose \<open>negative_fee\<close> flag is
  false; the \<open>Bitcoinlike\<close> signer returns for a coin whose flag is true; the \<open>Bitcoin\<close>
  signer raises for every coin. Where the fee is not negative or \<open>on_negative_fee\<close>
  returns, the phase goes on to its prompts and succeeds when the user accepts them.
\<close>

theorem C6_negative_fee:
  "(total_in self - total_out self < 0 \<and> on_negative_fee self = Inl e \<longrightarrow>
      step3_confirm_tran E ui self = Inl e)
   \<and> (\<not> negative_fee (coin self) \<longrightarrow>
        on_negative_fee self
          = Inl (SigningError [Failure NotEnoughFunds, Message ''Not enough funds'']))
   \<and> (cls self = Bitcoinlike \<and> negative_fee (coin self) \<longrightarrow> on_negative_fee self = Inr ())
   \<and> (cls self = Bitcoin \<longrightarrow>
        on_negative_fee self
          = Inl (SigningError [Failure NotEnoughFunds, Message ''Not enough funds'']))
   \<and> ((0 \<le> total_in self - total_out self \<or> on_negative_fee self = Inr ())
        \<and> confirm_feeoverthreshold ui \<and> confirm_nondefault_locktime ui \<and> confirm_total ui \<longrightarrow>
        step3_confirm_tran E ui self = Inr ())"
  by (cases "cls self")
     (auto simp: step3_confirm_tran_def on_negative_fee_def Bitcoin_on_negative_fee_def
           Bitcoinlike_on_negative_fee_def Let_def)

text \<open>
  The theorem at a reward transaction (no input, an output of 5) for a coin that allows
  a negative fee and for one that does not.
\<close>

theorem C6_negative_fee_witness:
  "total_in ((initialize demo_env Bitcoinlike demo_tx demo_coin)\<lparr>total_out := 5\<rparr>)
     - total_out ((initialize demo_env Bitcoinlike demo_tx demo_coin)\<lparr>total_out := 5\<rparr>) < 0
   \<and> \<not> negative_fee (coin ((initialize demo_env Bitcoinlike demo_tx demo_coin)\<lparr>total_out := 5\<rparr>))
   \<and> step3_confirm_tran demo_env demo_all_yes
        ((initialize demo_env Bitcoinlike demo_tx demo_coin)\<lparr>total_out := 5\<rparr>)
       = Inl (SigningError [Failure NotEnoughFunds, Message ''Not enough funds''])
   \<and> negative_fee (coin ((initialize demo_env Bitcoinlike demo_tx
                             (demo_coin\<lparr>negative_fee := True\<rparr>))\<lparr>total_out := 5\<rparr>))
   \<and> step3_confirm_tran demo_env demo_all_yes
        ((initialize demo_env Bitcoinlike demo_tx (demo_coin\<lparr>negative_fee := True\<rparr>))
           \<lparr>total_out := 5\<rparr>)
       = Inr ()"
proof -
  let ?s = "(initialize demo_env Bitcoinlike demo_tx demo_coin)\<lparr>total_out := 5\<rparr>"
  let ?r = "(initialize demo_env Bitcoinlike demo_tx (demo_coin\<lparr>negative_fee := True\<rparr>))
              \<lparr>total_out := 5\<rparr>"
  have s: "total_in ?s - total_out ?s < 0" "\<not> negative_fee (coin ?s)"
    by (simp_all add: initialize_def demo_coin_def)
  have r: "cls ?r = Bitcoinlike" "negative_fee (coin ?r)"
    by (simp_all add: initialize_def)
  have y: "confirm_feeoverthreshold demo_all_yes" "confirm_nondefault_locktime demo_all_yes"
    "confirm_total demo_all_yes"
    by (simp_all add: demo_all_yes_def)
  from C6_negative_fee
         [of ?s "SigningError [Failure NotEnoughFunds, Message ''Not enough funds'']"
             demo_env demo_all_yes] s
  have "step3_confirm_tran demo_env demo_all_yes ?s
          = Inl (SigningError [Failure NotEnoughFunds, Message ''Not enough funds''])"
    by blast
  moreover from C6_negative_fee [of ?r undefined demo_env demo_all_yes] r y
  have "step3_confirm_tran demo_env demo_all_yes ?r = Inr ()"
    by blast
  ultimately show ?thesis
    using s r by blast
qed

text \<open>
  The claim as it is written fails for the \<open>Bitcoin\<close> signer, whose \<open>on_negative_fee\<close>
  does not read the flag: it raises for a coin whose flag is true.
\<close>

theorem C6_counterexample:
  "negative_fee (coin (initialize demo_env Bitcoin demo_tx (demo_coin\<lparr>negative_fee := True\<rparr>)))
   \<and> on_negative_fee (initialize demo_env Bitcoin demo_tx (demo_coin\<lparr>negative_fee := True\<rparr>))
       = Inl (SigningError [Failure NotEnoughFunds, Message ''Not enough funds''])"
  by (simp add: initialize_def on_negative_fee_def Bitcoin_on_negative_fee_def)

section \<open>Segwit witnesses\<close>


lemma check_both_UNDEFINED:
  "attribute (wallet_path self) = UNDEFINED \<Longrightarrow>
   check_both E self txi = Inl transaction_has_changed"
  by (simp add: check_both_def check_input_UNDEFINED)

text \<open>
  An input sent again without amount: the comparison with \<open>bip143_in\<close> raises
  \<open>TypeError\<close>. It is reached only after both checkers have accepted the input, which
  they never do while the attribute of \<open>wallet_path\<close> is \<open>UNDEFINED\<close>.
\<close>

lemma sign_segwit_input_no_amount:
  assumes "check_both E self txi = Inr u"
      and "input_is_segwit E txi"
      and "TxInputType.amount txi = None"
  shows "sign_segwit_input E self i txi = Inl TypeError"
  using assms by (simp add: sign_segwit_input_def)






section \<open>Authentication of the previous transaction\<close>




text \<open>It does not end when the host answers every request with no data.\<close>

lemma extra_data_loop_Some_progress:
  assumes "extra_data_loop E reply len k ofs w = Some y"
  shows "(\<forall>k ofs size. reply k ofs size = []) \<longrightarrow> \<not> ofs < len"
proof (rule extra_data_loop.raw_induct
         [where P = "\<lambda>E reply len k ofs w y.
                       (\<forall>k ofs size. reply k ofs size = []) \<longrightarrow> \<not> ofs < len",
          OF _ assms])
  fix f E reply len k ofs w y
  assume IH: "\<And>E reply len k ofs w y. f E reply len k ofs w = Some y \<Longrightarrow>
                (\<forall>k ofs size. reply k ofs size = []) \<longrightarrow> \<not> ofs < len"
    and body: "(if ofs < len
                then f E reply len (Suc k) (ofs + length (reply k ofs (min 1024 (len - ofs))))
                       (write_bytes_unchecked (writers E) w (reply k ofs (min 1024 (len - ofs))))
                else Some w) = Some y"
  show "(\<forall>k ofs size. reply k ofs size = []) \<longrightarrow> \<not> ofs < len"
  proof (intro impI notI)
    assume e: "\<forall>k ofs size. reply k ofs size = []" and l: "ofs < len"
    from body l e have "f E reply len (Suc k) ofs (write_bytes_unchecked (writers E) w []) = Some y"
      by simp
    from IH [OF this] e l show False
      by simp
  qed
qed

lemma extra_data_loop_stalls:
  assumes "ofs < len"
  shows "extra_data_loop E (\<lambda>k ofs size. []) len k ofs w = None"
proof (cases "extra_data_loop E (\<lambda>k ofs size. []) len k ofs w")
  case None
  then show ?thesis .
next
  case (Some y)
  from extra_data_loop_Some_progress [OF this] assms show ?thesis
    by simp
qed







lemmas prevtx_defs = hash_prevtx_def write_tx_header_def Bitcoin_write_tx_header_def
  Bitcoinlike_write_tx_header_def write_prev_tx_footer_def Bitcoinlike_write_prev_tx_footer_def
  Bitcoin_write_prev_tx_footer_def create_hash_writer_def Let_def

lemma demo_prev2_sel:
  "tx_meta demo_prev2 = \<lparr>version = 1, lock_time = 0, timestamp = 0,
                          inputs_cnt = 1, outputs_cnt = 2, extra_data_len = 0\<rparr>"
  "prev_inputs demo_prev2 i = demo_txi"
  "prev_outputs demo_prev2 0 = \<lparr>TxOutputBinType.amount = 1000, script_pubkey = [118, 1]\<rparr>"
  "prev_outputs demo_prev2 (Suc 0)
     = \<lparr>TxOutputBinType.amount = 50000, script_pubkey = [118, 7]\<rparr>"
  by (simp_all add: demo_prev2_def)


text \<open>
  The bytes of \<open>demo_prev2\<close> in this environment: version, one input (its \<open>prev_hash\<close>
  1 2 3), two outputs (1000 and 50 000 modulo 256, each with its script), lock time.
\<close>

lemma demo_prevtx_serialization:
  "cls self = Bitcoin \<Longrightarrow>
   write_uint32 (writers demo_env) (prevtx_serialization demo_env demo_prev2 self) 0
     = [1, 1, 1, 2, 3, 2, 232, 118, 1, 80, 118, 7, 0]"
  by (simp add: prevtx_serialization_def write_tx_header_def Bitcoin_write_tx_header_def
        create_hash_writer_def demo_prev2_sel upt_0_2 demo_env_sel demo_writers_def
        demo_txi_def)




text \<open>
  Claim C10. When \<open>prev_index\<close> is not below the number of outputs that the meta data of
  the previous transaction declare, \<open>get_prevtx_output_value\<close> ends with \<open>ProcessError\<close>,
  ``Not enough outputs in previous transaction.'', and so does the processing of the
  input. The result is the same for every body the host could stream, also for one whose
  hashing would never end: no hash writer exists yet and nothing of the body is read.
\<close>

theorem C10_not_enough_outputs:
  assumes "outputs_cnt (tx_meta host) \<le> prev_index txi"
  shows "get_prevtx_output_value E host self (prev_hash txi) (prev_index txi)
           = Some (Inl (SigningError [Failure ProcessError,
                          Message ''Not enough outputs in previous transaction.'']))
       \<and> get_prevtx_output_value E
           (host\<lparr>prev_inputs := ins, prev_outputs := outs, prev_extra_data := extra\<rparr>)
           self (prev_hash txi) (prev_index txi)
           = Some (Inl (SigningError [Failure ProcessError,
                          Message ''Not enough outputs in previous transaction.'']))
       \<and> Bitcoin_process_nonsegwit_input E host self i txi
           = Some (Inl (SigningError [Failure ProcessError,
                          Message ''Not enough outputs in previous transaction.'']))"
  using assms
  by (simp add: get_prevtx_output_value_def Bitcoin_process_nonsegwit_input_def Let_def)

text \<open>
  The theorem at a previous transaction with one output and an input that names output
  1 of it, for a coin with extra data and a host that sends none: hashing that
  transaction would not come to an end, and the error is there all the same.
\<close>

theorem C10_not_enough_outputs_witness:
  "outputs_cnt (tx_meta demo_stalling) \<le> prev_index (demo_txi_legacy\<lparr>prev_index := 1\<rparr>)
   \<and> hash_prevtx demo_env demo_stalling
        (initialize demo_env Bitcoinlike demo_tx (demo_coin\<lparr>extra_data := True\<rparr>)) 1 = None
   \<and> get_prevtx_output_value demo_env demo_stalling
        (initialize demo_env Bitcoinlike demo_tx (demo_coin\<lparr>extra_data := True\<rparr>))
        (prev_hash (demo_txi_legacy\<lparr>prev_index := 1\<rparr>))
        (prev_index (demo_txi_legacy\<lparr>prev_index := 1\<rparr>))
       = Some (Inl (SigningError [Failure ProcessError,
                      Message ''Not enough outputs in previous transaction.'']))"
proof -
  let ?s = "initialize demo_env Bitcoinlike demo_tx (demo_coin\<lparr>extra_data := True\<rparr>)"
  let ?t = "demo_txi_legacy\<lparr>prev_index := 1\<rparr>"
  have h: "outputs_cnt (tx_meta demo_stalling) \<le> prev_index ?t"
    by (simp add: demo_stalling_def demo_prev_def)
  have n: "hash_prevtx demo_env demo_stalling ?s 1 = None"
    by (simp add: prevtx_defs initialize_def demo_stalling_def demo_prev_def
          extra_data_loop_stalls split: prod.splits)
  from C10_not_enough_outputs [OF h, of demo_env ?s] h n show ?thesis
    by simp
qed

section \<open>Legacy signing\<close>







text \<open>
  While the attribute of \<open>wallet_path\<close> is \<open>UNDEFINED\<close> the input that is to be signed is
  refused when it is streamed, so the loops end with \<open>txi_sign\<close> unbound or not at all,
  and no legacy input is signed.
\<close>

lemma sign_input_loop_signing:
  assumes "attribute (wallet_path self) = UNDEFINED"
  shows "for_loop is (sign_input_body E ins self i_sign) L = Inr L' \<Longrightarrow> signing L' = signing L"
proof (induction "is" arbitrary: L)
  case Nil
  then show ?case by simp
next
  case (Cons i "is")
  from Cons.prems obtain M where
    b: "sign_input_body E ins self i_sign i L = Inr M" and
    r: "for_loop is (sign_input_body E ins self i_sign) M = Inr L'"
    by (auto split: sum.splits)
  from b have "signing M = signing L"
    by (auto simp: sign_input_body_def Let_def check_both_UNDEFINED [OF assms]
             split: sum.splits if_splits prod.splits)
  with Cons.IH [OF r] show ?case
    by simp
qed

lemma sign_output_loop_signing:
  "for_loop is (sign_output_body E outs self) L = Inr L' \<Longrightarrow> signing L' = signing L"
proof (induction "is" arbitrary: L)
  case Nil
  then show ?case by simp
next
  case (Cons i "is")
  from Cons.prems obtain M where
    b: "sign_output_body E outs self i L = Inr M" and
    r: "for_loop is (sign_output_body E outs self) M = Inr L'"
    by (auto split: sum.splits)
  from b have "signing M = signing L"
    by (auto simp: sign_output_body_def Let_def split: sum.splits)
  with Cons.IH [OF r] show ?case
    by simp
qed

lemma sign_nonsegwit_stream_UNDEFINED:
  assumes "attribute (wallet_path self) = UNDEFINED"
      and "sign_nonsegwit_stream E ins outs self i_sign = Inr L"
  shows "signing L = None"
proof -
  from assms(2) obtain L1 L2 where
    1: "for_loop [0..<inputs_count (tx self)] (sign_input_body E ins self i_sign)
          \<lparr>h_sign = write_sign_tx_header E self create_hash_writer False,
           h_check = create_hash_writer, signing = None\<rparr> = Inr L1" and
    2: "for_loop [0..<outputs_count (tx self)] (sign_output_body E outs self)
          (L1\<lparr>h_sign := write_varint (writers E) (h_sign L1)
                           (int (outputs_count (tx self)))\<rparr>) = Inr L2" and
    3: "signing L = signing L2"
    by (auto simp: sign_nonsegwit_stream_def Let_def split: sum.splits)
  from sign_input_loop_signing [OF assms(1) 1] sign_output_loop_signing [OF 2] 3
  show ?thesis
    by simp
qed

lemma sign_nonsegwit_input_UNDEFINED:
  assumes "attribute (wallet_path self) = UNDEFINED"
  shows "sign_nonsegwit_input E ins outs self i_sign \<noteq> Inr self'"
proof -
  have b: "Bitcoin_sign_nonsegwit_input E ins outs self i_sign \<noteq> Inr self'"
    using sign_nonsegwit_stream_UNDEFINED [OF assms, of E ins outs i_sign]
    by (auto simp: Bitcoin_sign_nonsegwit_input_def sign_nonsegwit_finish_def
             split: sum.splits)
  have "sign_bip143_input E self i_sign (ins i_sign) \<noteq> Inr self'"
    by (simp add: sign_bip143_input_def check_both_UNDEFINED [OF assms])
  with b show ?thesis
    by (cases "cls self")
       (auto simp: sign_nonsegwit_input_def Bitcoinlike_sign_nonsegwit_input_def)
qed



lemmas finish_defs = sign_nonsegwit_input_def Bitcoin_sign_nonsegwit_input_def
  sign_nonsegwit_finish_def get_digest_def ecdsa_sign_def input_derive_script_def




section \<open>Exceptions of the address decoding\<close>

lemma split_str_one_sep:
  "sep \<notin> set p \<Longrightarrow> sep \<notin> set q \<Longrightarrow> split_str sep (p @ sep # q) = [p, q]"
proof (induction p)
  case Nil
  have "split_str sep q = [q]" if "sep \<notin> set q" for q
    using that by (induction q) auto
  with Nil show ?case by simp
next
  case (Cons c p)
  then show ?case by auto
qed

text \<open>
  Whatever the decoder is: a CashAddr address with the coin's prefix whose version is
  neither of the two known ones raises a \<open>SigningError\<close> that carries the message only.
\<close>

lemma cashaddr_unknown_type:
  assumes "cashaddr_prefix (coin self) = Some cp"
      and "address txo = Some (cp @ CHR '':'' # payload)"
      and "CHR '':'' \<notin> set cp" and "CHR '':'' \<notin> set payload"
      and "cashaddr_decode (addresses E) cp payload = Inr (v, d)"
      and "v \<noteq> ADDRESS_TYPE_P2KH (addresses E)" and "v \<noteq> ADDRESS_TYPE_P2SH (addresses E)"
  shows "Bitcoinlike_get_raw_address E self txo
           = Inl (SigningError [Message ''Unknown cashaddr address type''])"
  using assms
  by (simp add: Bitcoinlike_get_raw_address_def startswith_def split_str_one_sep)

text \<open>
  Claim C9 at a payment to such an address, for the \<open>Bitcoinlike\<close> signer of a coin with
  the prefix \<open>bitcoincash\<close>: \<open>get_raw_address\<close>, and with it \<open>output_derive_script\<close>, raises
  a \<open>SigningError\<close> whose first argument is the message and which has no failure type.
\<close>

theorem C9_cashaddr_error_without_failure_type:
  "get_raw_address demo_env (initialize demo_env Bitcoinlike demo_tx demo_cash_coin)
     demo_cashaddr_pay
     = Inl (SigningError [Message ''Unknown cashaddr address type''])
   \<and> output_derive_script demo_env (initialize demo_env Bitcoinlike demo_tx demo_cash_coin)
       demo_cashaddr_pay
     = Inl (SigningError [Message ''Unknown cashaddr address type''])
   \<and> \<not> has_failure_type (SigningError [Message ''Unknown cashaddr address type''])"
  by (simp add: output_defs Bitcoinlike_get_raw_address_def initialize_def
        demo_cashaddr_pay_def demo_cash_coin_def demo_pay_def demo_coin_def demo_env_sel
        demo_addresses_def)

end
